theory Spec2Isabelle
  imports Main
begin

section \<open>Data model of RaftNode\<close>

text \<open>
  The three roles of \<^verbatim>\<open>State\<close> and the command vocabulary switched on by
  \<^verbatim>\<open>applyLogEntry\<close>. A command string outside the vocabulary is \<open>OTHER\<close>: it
  reaches the \<^verbatim>\<open>default\<close> branch of the switch.
\<close>

datatype State = FOLLOWER | CANDIDATE | LEADER

datatype CommandType = NEW_USER | NEW_AUCTION | CLOSE_AUCTION | NEW_BID | OTHER string

text \<open>
  A log record. \<open>entryTerm\<close> is the field \<^verbatim>\<open>term\<close>; \<open>callback\<close> is the one-shot
  notifier of the web server (a handle number here), \<open>None\<close> when it is null or absent.
\<close>

record LogRecord =
  entryTerm :: int
  commandType :: CommandType
  logData :: string
  callback :: "nat option"

text \<open>
  RPC parameters. \<open>msgTerm\<close> is the field \<^verbatim>\<open>term\<close>. A term that JavaScript
  passes as \<^verbatim>\<open>null\<close> (no last record) is \<open>None\<close>.
\<close>

record RPCParameters =
  senderId :: string
  msgTerm :: int
  isResponse :: bool
  messageNum :: int

record AppendEntriesParameters = RPCParameters +
  prevLogIndex :: int
  prevLogTerm :: "int option"
  entries :: "LogRecord list"
  leaderCommit :: int
  success :: bool

record RequestVoteParameters = RPCParameters +
  lastLogIndex :: int
  lastLogTerm :: "int option"
  voteGranted :: bool

text \<open>
  What a handler does to the outside: messages handed to \<^verbatim>\<open>rpcManager\<close>, timers set
  and cleared, calls of the database manager, callbacks fulfilled, and the rejection of the
  promise of \<^verbatim>\<open>applyLogEntry\<close> when its body throws. They are appended, in program
  order, to the field \<open>outbox\<close> of the node.
\<close>

datatype timer = LeaderTimer | ElectionTimer | HeartbeatTimer string

datatype applyError = UndefinedEntry int | UnknownCommand string

datatype effect =
    SendReplicationResponse string int bool "int option" int
  | SendReplicationTo string int int int "int option" "LogRecord list" "int option"
  | SendReplication int int int "int option" "LogRecord list" "int option"
  | SendVote string int bool
  | SendElectionNotice int int "int option"
  | DisconnectSockets
  | SetTimeout timer
  | ClearTimeout timer
  | DbQuery int CommandType string
  | Fulfil nat "string option"
  | Rejected applyError

text \<open>
  A JavaScript \<^verbatim>\<open>Map\<close> with string keys: an association list in insertion order.
  \<^verbatim>\<open>set\<close> overwrites the value of a present key in place and appends a new key.
\<close>

type_synonym 'v jsmap = "(string \<times> 'v) list"

fun map_set :: "'v jsmap \<Rightarrow> string \<Rightarrow> 'v \<Rightarrow> 'v jsmap" where
  "map_set [] k v = [(k, v)]"
| "map_set ((k', v') # m) k v = (if k' = k then (k, v) # m else (k', v') # map_set m k v)"

definition map_get :: "'v jsmap \<Rightarrow> string \<Rightarrow> 'v option" where
  "map_get m k = map_of m k"

definition map_values :: "'v jsmap \<Rightarrow> 'v list" where
  "map_values m = map snd m"

text \<open>
  The node. \<open>commitIndex\<close> is \<open>None\<close> when the field holds \<^verbatim>\<open>undefined\<close> (the leader
  stores an array element that may not exist). \<open>sockets\<close> lists the keys of the map of
  peer sockets, which \<^verbatim>\<open>start\<close> fills with the ids of \<^verbatim>\<open>otherNodes\<close>; the
  constructor sets \<open>clusterSize\<close> to the size of \<^verbatim>\<open>otherNodes\<close> plus one. The
  three timer fields say which timers are set.
\<close>

record RaftNode =
  state :: State
  currentTerm :: int
  votedFor :: "string option"
  votesGathered :: int
  log :: "LogRecord list"
  commitIndex :: "int option"
  lastApplied :: int
  minElectionDelay :: int
  nextIndex :: "int jsmap"
  matchIndex :: "int jsmap"
  lastSent :: "int jsmap"
  sockets :: "string list"
  clusterSize :: int
  currentLeaderId :: "string option"
  heartbeatTimeouts :: "string list"
  leaderTimeout :: bool
  electionTimeout :: bool
  nodeIdToMessageNum :: "int jsmap"
  lastMessageNum :: int
  disabledDB :: bool
  outbox :: "effect list"

text \<open>
  A handler either returns the node it leaves behind or stops with a fault:
  \<open>TypeError\<close> where the source reads a property of \<^verbatim>\<open>undefined\<close>,
  \<open>IllegalState\<close> where \<^verbatim>\<open>waitForHeartbeatTimeout\<close> throws, and \<open>UnknownSender\<close>
  where a leader looks up a sender that is not a key of its maps (the arithmetic on
  \<^verbatim>\<open>undefined\<close> that follows in JavaScript is not modelled).
\<close>

datatype fault = TypeError | IllegalState | UnknownSender

definition emit :: "effect \<Rightarrow> RaftNode \<Rightarrow> RaftNode" where
  "emit e n = n\<lparr>outbox := outbox n @ [e]\<rparr>"

section \<open>Array helpers\<close>

text \<open>\<^verbatim>\<open>arr[i]\<close>: the element, or \<^verbatim>\<open>undefined\<close> outside the array.\<close>

definition js_index :: "'a list \<Rightarrow> int \<Rightarrow> 'a option" where
  "js_index xs i = (if 0 \<le> i \<and> i < int (length xs) then Some (xs ! nat i) else None)"

text \<open>\<^verbatim>\<open>arr.at(i)\<close>: as \<^verbatim>\<open>arr[i]\<close>, a negative index counting from the end.\<close>

definition js_at :: "'a list \<Rightarrow> int \<Rightarrow> 'a option" where
  "js_at xs i = js_index xs (if i < 0 then int (length xs) + i else i)"

text \<open>\<^verbatim>\<open>arr.slice(k)\<close>: the elements from \<open>k\<close> on, a negative \<open>k\<close> counting from the end.\<close>

definition js_slice :: "'a list \<Rightarrow> int \<Rightarrow> 'a list" where
  "js_slice xs k = drop (nat (if k < 0 then max (int (length xs) + k) 0 else k)) xs"

text \<open>
  \<^verbatim>\<open>this.log.at(-1) != null ? this.log.at(-1).term : null\<close>, the term of the last record.
\<close>

definition lastTerm :: "LogRecord list \<Rightarrow> int option" where
  "lastTerm lg = (case js_at lg (-1) of None \<Rightarrow> None | Some r \<Rightarrow> Some (entryTerm r))"

section \<open>The default sort of an array of numbers\<close>

text \<open>
  \<^verbatim>\<open>Array.prototype.sort\<close> without a comparison function orders the elements by
  their string conversions, compared code unit by code unit. \<open>ToString\<close> is the decimal
  notation of an integer, as JavaScript prints every integer below \<open>10^21\<close> in absolute
  value. The sort is stable.
\<close>

definition digit_char :: "nat \<Rightarrow> char" where
  "digit_char d = ''0123456789'' ! d"

function digits :: "nat \<Rightarrow> string" where
  "digits n = (if n < 10 then [digit_char n] else digits (n div 10) @ [digit_char (n mod 10)])"
  by pat_completeness auto
termination
  by (relation "measure id") auto

declare digits.simps [simp del]

definition ToString :: "int \<Rightarrow> string" where
  "ToString i = (if i < 0 then CHR ''-'' # digits (nat (- i)) else digits (nat i))"

fun js_string_less :: "string \<Rightarrow> string \<Rightarrow> bool" where
  "js_string_less _ [] = False"
| "js_string_less [] (y # ys) = True"
| "js_string_less (x # xs) (y # ys) =
     ((of_char x :: nat) < of_char y \<or> (x = y \<and> js_string_less xs ys))"

fun js_insert :: "int \<Rightarrow> int list \<Rightarrow> int list" where
  "js_insert x [] = [x]"
| "js_insert x (y # ys) =
     (if js_string_less (ToString y) (ToString x) then y # js_insert x ys else x # y # ys)"

definition js_sort :: "int list \<Rightarrow> int list" where
  "js_sort xs = foldr js_insert xs []"

section \<open>Timers\<close>

text \<open>
  \<^verbatim>\<open>stopX\<close> calls \<^verbatim>\<open>clearTimeout\<close> and forgets the handle; \<^verbatim>\<open>waitForX\<close> calls
  \<^verbatim>\<open>setTimeout\<close> (the random interval is not modelled); \<^verbatim>\<open>resetX\<close> does both.
  A timer that fires calls \<open>startNewElection\<close> (leader and election timer) or sends a
  heartbeat; the sending of heartbeats is not part of this development.
\<close>

definition stopLeaderTimeout :: "RaftNode \<Rightarrow> RaftNode" where
  "stopLeaderTimeout n = (emit (ClearTimeout LeaderTimer) n)\<lparr>leaderTimeout := False\<rparr>"

definition waitForLeaderTimeout :: "RaftNode \<Rightarrow> RaftNode" where
  "waitForLeaderTimeout n = (emit (SetTimeout LeaderTimer) n)\<lparr>leaderTimeout := True\<rparr>"

definition resetLeaderTimeout :: "RaftNode \<Rightarrow> RaftNode" where
  "resetLeaderTimeout n = waitForLeaderTimeout (stopLeaderTimeout n)"

definition stopElectionTimeout :: "RaftNode \<Rightarrow> RaftNode" where
  "stopElectionTimeout n = (emit (ClearTimeout ElectionTimer) n)\<lparr>electionTimeout := False\<rparr>"

definition waitForElectionTimeout :: "RaftNode \<Rightarrow> RaftNode" where
  "waitForElectionTimeout n = (emit (SetTimeout ElectionTimer) n)\<lparr>electionTimeout := True\<rparr>"

definition resetElectionTimeout :: "RaftNode \<Rightarrow> RaftNode" where
  "resetElectionTimeout n = waitForElectionTimeout (stopElectionTimeout n)"

text \<open>
  The heartbeat timers are kept per peer; the argument \<open>None\<close> is the default
  \<^verbatim>\<open>nodeId = null\<close>, which means every peer.
\<close>

definition stopHeartbeatTimeout :: "string option \<Rightarrow> RaftNode \<Rightarrow> RaftNode" where
  "stopHeartbeatTimeout nodeId n =
     (case nodeId of
        Some p \<Rightarrow> (emit (ClearTimeout (HeartbeatTimer p)) n)
                    \<lparr>heartbeatTimeouts := removeAll p (heartbeatTimeouts n)\<rparr>
      | None \<Rightarrow> n\<lparr>heartbeatTimeouts := [],
                   outbox := outbox n @ map (\<lambda>p. ClearTimeout (HeartbeatTimer p)) (sockets n)\<rparr>)"

definition setHeartbeat :: "string \<Rightarrow> RaftNode \<Rightarrow> RaftNode" where
  "setHeartbeat p n =
     (emit (SetTimeout (HeartbeatTimer p)) n)
       \<lparr>heartbeatTimeouts :=
          (if p \<in> set (heartbeatTimeouts n) then heartbeatTimeouts n
           else heartbeatTimeouts n @ [p])\<rparr>"

definition waitForHeartbeatTimeout :: "string option \<Rightarrow> RaftNode \<Rightarrow> fault + RaftNode" where
  "waitForHeartbeatTimeout nodeId n =
     (if state n = FOLLOWER then Inl IllegalState
      else (case nodeId of
              Some p \<Rightarrow> Inr (setHeartbeat p n)
            | None \<Rightarrow> Inr (fold setHeartbeat (sockets n) n)))"

definition resetHeartbeatTimeout :: "string option \<Rightarrow> RaftNode \<Rightarrow> fault + RaftNode" where
  "resetHeartbeatTimeout nodeId n = waitForHeartbeatTimeout nodeId (stopHeartbeatTimeout nodeId n)"

section \<open>The applier\<close>

text \<open>
  \<^verbatim>\<open>applyLogEntry\<close> is an \<^verbatim>\<open>async\<close> function that nobody awaits. It runs at once
  up to its first \<^verbatim>\<open>await\<close>: with the database enabled that is the call of the
  database manager (\<open>DbQuery\<close>, tagged with the position of the record), and the rest of
  the body, \<open>applyLogEntryResume\<close>, runs later with the result of the query. With
  \<open>disabledDB\<close> there is no \<^verbatim>\<open>await\<close>: the body runs to its end at once with the
  result \<^verbatim>\<open>null\<close>. A \<^verbatim>\<open>throw\<close> in the body rejects the promise and does not reach the
  caller. The resumed part works on the record the first part has read; it is addressed here
  by its position in the log.
\<close>

definition applyLogEntryResume :: "nat \<Rightarrow> string option \<Rightarrow> RaftNode \<Rightarrow> RaftNode" where
  "applyLogEntryResume k res n =
     (case callback (log n ! k) of
        None \<Rightarrow> n
      | Some h \<Rightarrow> (emit (Fulfil h res) n)\<lparr>log := (log n)[k := (log n ! k)\<lparr>callback := None\<rparr>]\<rparr>)"

definition applyCommand :: "nat \<Rightarrow> LogRecord \<Rightarrow> RaftNode \<Rightarrow> RaftNode" where
  "applyCommand k e n =
     (if disabledDB n then applyLogEntryResume k None n
      else emit (DbQuery (int k) (commandType e) (logData e)) n)"

definition applyLogEntry :: "int \<Rightarrow> RaftNode \<Rightarrow> RaftNode" where
  "applyLogEntry index n =
     (let k = nat (if index < 0 then int (length (log n)) + index else index) in
      case js_at (log n) index of
        None \<Rightarrow> emit (Rejected (UndefinedEntry index)) n
      | Some e \<Rightarrow>
          (case commandType e of
             NEW_USER \<Rightarrow> applyCommand k e n
           | NEW_AUCTION \<Rightarrow> applyCommand k e n
           | CLOSE_AUCTION \<Rightarrow> applyCommand k e n
           | NEW_BID \<Rightarrow> applyCommand k e n
           | OTHER s \<Rightarrow> emit (Rejected (UnknownCommand s)) n))"

text \<open>
  The loop of \<^verbatim>\<open>applyLogEntries\<close> from \<open>i\<close> up to the commit index \<open>hi\<close>, which
  nothing in the loop assigns.
\<close>

function applyLoop :: "int \<Rightarrow> int \<Rightarrow> RaftNode \<Rightarrow> RaftNode" where
  "applyLoop i hi n = (if i \<le> hi then applyLoop (i + 1) hi (applyLogEntry i n) else n)"
  by pat_completeness auto
termination
  by (relation "measure (\<lambda>(i, hi, n). nat (hi + 1 - i))") auto

declare applyLoop.simps [simp del]

definition applyLogEntries :: "RaftNode \<Rightarrow> RaftNode" where
  "applyLogEntries n =
     (case commitIndex n of
        None \<Rightarrow> n
      | Some c \<Rightarrow>
          if c > lastApplied n
          then (applyLoop (lastApplied n + 1) c n)\<lparr>lastApplied := c\<rparr>
          else n)"

section \<open>onAppendEntriesMessage\<close>

text \<open>The block run first when the term of the message is above \<open>currentTerm\<close>.\<close>

definition appendEntriesTermBump :: "AppendEntriesParameters \<Rightarrow> RaftNode \<Rightarrow> RaftNode" where
  "appendEntriesTermBump a n =
     (let n1 = (case state n of
                  LEADER \<Rightarrow> stopHeartbeatTimeout None n
                | CANDIDATE \<Rightarrow> stopElectionTimeout (stopHeartbeatTimeout None n)
                | FOLLOWER \<Rightarrow> n);
          n2 = n1\<lparr>state := FOLLOWER,
                  currentLeaderId := (if isResponse a then None else Some (senderId a)),
                  currentTerm := msgTerm a,
                  lastMessageNum := - 1\<rparr>
      in emit DisconnectSockets (resetLeaderTimeout n2))"

text \<open>
  The body of \<^verbatim>\<open>args.entries.forEach\<close> for the entry \<open>e\<close> at position \<open>i\<close>, and the
  loop over the entries.
\<close>

definition appendEntry :: "int \<Rightarrow> nat \<Rightarrow> LogRecord \<Rightarrow> RaftNode \<Rightarrow> RaftNode" where
  "appendEntry prev i e n =
     (let newEntryIndex = prev + int i + 1;
          n1 = (case js_index (log n) newEntryIndex of
                  None \<Rightarrow> n
                | Some r \<Rightarrow>
                    if entryTerm r \<noteq> entryTerm e
                    then (let lg = take (nat newEntryIndex) (log n);
                              ci = int (length lg) - 1
                          in n\<lparr>log := lg, commitIndex := Some ci,
                               lastApplied := min ci (lastApplied n)\<rparr>)
                    else n)
      in n1\<lparr>log := log n1 @ [e]\<rparr>)"

fun appendEntriesLoop :: "int \<Rightarrow> nat \<Rightarrow> LogRecord list \<Rightarrow> RaftNode \<Rightarrow> RaftNode" where
  "appendEntriesLoop prev i [] n = n"
| "appendEntriesLoop prev i (e # es) n = appendEntriesLoop prev (i + 1) es (appendEntry prev i e n)"

definition replyAppend :: "AppendEntriesParameters \<Rightarrow> bool \<Rightarrow> RaftNode \<Rightarrow> RaftNode" where
  "replyAppend a ok n =
     emit (SendReplicationResponse (senderId a) (currentTerm n) ok (commitIndex n) (lastApplied n)) n"

text \<open>
  The follower on a request it accepts: everything from the assignment of
  \<open>lastMessageNum\<close> to the end of the case.
\<close>

definition acceptAppendEntries :: "AppendEntriesParameters \<Rightarrow> RaftNode \<Rightarrow> RaftNode" where
  "acceptAppendEntries a n =
     (let n1 = n\<lparr>lastMessageNum := messageNum a\<rparr>;
          n2 = (if length (entries a) > 0
                then appendEntriesLoop (prevLogIndex a) 0 (entries a) n1 else n1);
          n3 = (case commitIndex n2 of
                  None \<Rightarrow> n2
                | Some c \<Rightarrow>
                    if leaderCommit a > c
                    then n2\<lparr>commitIndex := Some (min (leaderCommit a) (int (length (log n2)) - 1))\<rparr>
                    else n2);
          n4 = applyLogEntries n3
      in resetLeaderTimeout (replyAppend a True n4))"

definition followerAppendEntries :: "AppendEntriesParameters \<Rightarrow> RaftNode \<Rightarrow> RaftNode" where
  "followerAppendEntries a n =
     (if isResponse a then n
      else if messageNum a \<le> lastMessageNum n then n
      else if msgTerm a < currentTerm n then replyAppend a False n
      else if prevLogIndex a \<ge> 0 \<and> js_at (log n) (prevLogIndex a) = None
        then resetLeaderTimeout (replyAppend a False n)
      else
        (case currentLeaderId n of
           None \<Rightarrow> acceptAppendEntries a (n\<lparr>currentLeaderId := Some (senderId a)\<rparr>)
         | Some l \<Rightarrow> if l \<noteq> senderId a then n else acceptAppendEntries a n))"

text \<open>
  The leader on a response. The previous index is \<^verbatim>\<open>nextIndex - 1\<close>, which is the
  value just read from \<open>lastSent\<close>; reading the term of a record the log does not have is
  the \<open>TypeError\<close>.
\<close>

definition leaderAppendEntries :: "AppendEntriesParameters \<Rightarrow> RaftNode \<Rightarrow> fault + RaftNode" where
  "leaderAppendEntries a n =
     (if \<not> isResponse a then Inr (replyAppend a False n)
      else if success a then
        (case (map_get (lastSent n) (senderId a), map_get (nodeIdToMessageNum n) (senderId a)) of
           (Some ls, Some mn) \<Rightarrow>
             (let n1 = n\<lparr>matchIndex := map_set (matchIndex n) (senderId a) ls,
                         nextIndex := map_set (nextIndex n) (senderId a) (ls + 1),
                         nodeIdToMessageNum := map_set (nodeIdToMessageNum n) (senderId a) (mn + 1)\<rparr>;
                  prevIdx = ls + 1 - 1
              in if prevIdx \<ge> 0 \<and> js_index (log n1) prevIdx = None then Inl TypeError
                 else
                   (let prevTerm = (case js_index (log n1) prevIdx of
                                      None \<Rightarrow> None | Some r \<Rightarrow> Some (entryTerm r));
                        sortedIndexes = js_sort (map_values (matchIndex n1));
                        n2 = n1\<lparr>commitIndex := js_index sortedIndexes (clusterSize n1 div 2)\<rparr>;
                        missingEntries = js_slice (log n2) (ls + 1)
                    in if length missingEntries > 0
                       then
                         (case resetHeartbeatTimeout (Some (senderId a))
                                 ((emit (SendReplicationTo (senderId a) (mn + 1) (currentTerm n2)
                                           prevIdx prevTerm missingEntries (commitIndex n2)) n2)
                                   \<lparr>lastSent := map_set (lastSent n2) (senderId a)
                                                  (int (length (log n2)) - 1)\<rparr>) of
                            Inl f \<Rightarrow> Inl f
                          | Inr n3 \<Rightarrow> Inr (applyLogEntries n3))
                       else Inr (applyLogEntries n2)))
         | _ \<Rightarrow> Inl UnknownSender)
      else
        (case map_get (nextIndex n) (senderId a) of
           Some ni \<Rightarrow>
             resetHeartbeatTimeout (Some (senderId a))
               (n\<lparr>nextIndex := map_set (nextIndex n) (senderId a) (ni - 1)\<rparr>)
         | None \<Rightarrow> Inl UnknownSender))"

definition candidateAppendEntries :: "AppendEntriesParameters \<Rightarrow> RaftNode \<Rightarrow> RaftNode" where
  "candidateAppendEntries a n = (if isResponse a then n else replyAppend a False n)"

definition onAppendEntriesMessage :: "AppendEntriesParameters \<Rightarrow> RaftNode \<Rightarrow> fault + RaftNode" where
  "onAppendEntriesMessage a n =
     (let n1 = (if msgTerm a > currentTerm n then appendEntriesTermBump a n else n)
      in case state n1 of
           FOLLOWER \<Rightarrow> Inr (followerAppendEntries a n1)
         | LEADER \<Rightarrow> leaderAppendEntries a n1
         | CANDIDATE \<Rightarrow> Inr (candidateAppendEntries a n1))"

section \<open>onRequestVoteMessage\<close>

definition requestVoteTermBump :: "RequestVoteParameters \<Rightarrow> RaftNode \<Rightarrow> RaftNode" where
  "requestVoteTermBump a n =
     (let n1 = (case state n of
                  LEADER \<Rightarrow> stopHeartbeatTimeout None n
                | CANDIDATE \<Rightarrow> stopElectionTimeout (stopHeartbeatTimeout None n)
                | FOLLOWER \<Rightarrow> n);
          n2 = n1\<lparr>state := FOLLOWER,
                  votedFor := None,
                  currentLeaderId := None,
                  currentTerm := msgTerm a,
                  lastMessageNum := - 1\<rparr>
      in emit DisconnectSockets (resetLeaderTimeout n2))"

text \<open>
  \<^verbatim>\<open>this.log[i]?.term\<close>: the term of the record at \<open>i\<close>, \<^verbatim>\<open>undefined\<close> (\<open>None\<close>)
  when the log has no record there. The comparison \<^verbatim>\<open>==\<close> with \<open>lastLogTerm\<close> holds
  between two numbers that are equal and between \<^verbatim>\<open>undefined\<close> and \<^verbatim>\<open>null\<close>.
\<close>

definition termAt :: "LogRecord list \<Rightarrow> int \<Rightarrow> int option" where
  "termAt lg i = (case js_index lg i of None \<Rightarrow> None | Some r \<Rightarrow> Some (entryTerm r))"

definition voteCondition :: "RequestVoteParameters \<Rightarrow> RaftNode \<Rightarrow> bool" where
  "voteCondition a n =
     (votedFor n = None \<and>
      (int (length (log n)) < lastLogIndex a + 1 \<or> termAt (log n) (lastLogIndex a) = lastLogTerm a))"

definition followerRequestVote :: "RequestVoteParameters \<Rightarrow> RaftNode \<Rightarrow> RaftNode" where
  "followerRequestVote a n =
     (if isResponse a then n
      else if voteCondition a n
        then resetLeaderTimeout
               (emit (SendVote (senderId a) (currentTerm n) True) (n\<lparr>votedFor := Some (senderId a)\<rparr>))
        else emit (SendVote (senderId a) (currentTerm n) False) n)"

definition leaderRequestVote :: "RequestVoteParameters \<Rightarrow> RaftNode \<Rightarrow> RaftNode" where
  "leaderRequestVote a n =
     (if isResponse a then n else emit (SendVote (senderId a) (currentTerm n) False) n)"

text \<open>The three \<^verbatim>\<open>Map.set\<close> calls made for every peer when the election is won.\<close>

definition initPeer :: "string \<Rightarrow> RaftNode \<Rightarrow> RaftNode" where
  "initPeer nodeId n =
     n\<lparr>matchIndex := map_set (matchIndex n) nodeId (- 1),
       nextIndex := map_set (nextIndex n) nodeId (int (length (log n))),
       lastSent := map_set (lastSent n) nodeId (int (length (log n)) - 1)\<rparr>"

definition becomeLeader :: "RaftNode \<Rightarrow> fault + RaftNode" where
  "becomeLeader n =
     (let n1 = n\<lparr>state := LEADER,
                 nodeIdToMessageNum := map (\<lambda>(k, v). (k, 0)) (nodeIdToMessageNum n)\<rparr>;
          n2 = fold initPeer (sockets n1) n1;
          n3 = emit (SendReplication 0 (currentTerm n2) (int (length (log n2)) - 1)
                       (lastTerm (log n2)) [] (commitIndex n2)) n2
      in case resetHeartbeatTimeout None n3 of
           Inl f \<Rightarrow> Inl f
         | Inr n4 \<Rightarrow> Inr (stopElectionTimeout n4))"

definition candidateRequestVote :: "RequestVoteParameters \<Rightarrow> RaftNode \<Rightarrow> fault + RaftNode" where
  "candidateRequestVote a n =
     (if isResponse a then
        (let n1 = stopHeartbeatTimeout (Some (senderId a)) n in
         if voteGranted a then
           (let n2 = n1\<lparr>votesGathered := votesGathered n1 + 1\<rparr> in
            if votesGathered n2 > clusterSize n2 div 2 then becomeLeader n2 else Inr n2)
         else Inr n1)
      else Inr (emit (SendVote (senderId a) (currentTerm n) False) n))"

definition onRequestVoteMessage :: "RequestVoteParameters \<Rightarrow> RaftNode \<Rightarrow> fault + RaftNode" where
  "onRequestVoteMessage a n =
     (let n1 = (if msgTerm a > currentTerm n then requestVoteTermBump a n else n)
      in case state n1 of
           FOLLOWER \<Rightarrow> Inr (followerRequestVote a n1)
         | LEADER \<Rightarrow> Inr (leaderRequestVote a n1)
         | CANDIDATE \<Rightarrow> candidateRequestVote a n1)"

text \<open>Messages delivered one after the other; a fault stops the run.\<close>

fun onRequestVoteMessages :: "RequestVoteParameters list \<Rightarrow> RaftNode \<Rightarrow> fault + RaftNode" where
  "onRequestVoteMessages [] n = Inr n"
| "onRequestVoteMessages (a # as) n =
     (case onRequestVoteMessage a n of
        Inl f \<Rightarrow> Inl f
      | Inr n' \<Rightarrow> onRequestVoteMessages as n')"

section \<open>startNewElection\<close>

text \<open>
  Called when the leader timer or the election timer fires. The function reads no clock
  and never reads \<open>minElectionDelay\<close>.
\<close>

definition startNewElection :: "RaftNode \<Rightarrow> fault + RaftNode" where
  "startNewElection n =
     (let n1 = n\<lparr>leaderTimeout := False,
                 state := CANDIDATE,
                 currentTerm := currentTerm n + 1,
                 currentLeaderId := None,
                 votesGathered := 1\<rparr>;
          n2 = emit (SendElectionNotice (currentTerm n1) (int (length (log n1)) - 1)
                       (lastTerm (log n1))) n1
      in resetHeartbeatTimeout None (resetElectionTimeout (stopLeaderTimeout n2)))"

section \<open>The node after the constructor and start\<close>

text \<open>
  The constructor's initial values, for the peer ids \<open>peers\<close>; \<^verbatim>\<open>start\<close> then enters
  every peer in \<open>sockets\<close> and in \<open>nodeIdToMessageNum\<close> (with 0) and sets the leader
  timer.
\<close>

definition startedNode :: "string list \<Rightarrow> int \<Rightarrow> bool \<Rightarrow> RaftNode" where
  "startedNode peers delay noDB =
     \<lparr>state = FOLLOWER, currentTerm = 0, votedFor = None, votesGathered = 0, log = [],
      commitIndex = Some (- 1), lastApplied = - 1, minElectionDelay = delay,
      nextIndex = [], matchIndex = [], lastSent = [],
      sockets = peers, clusterSize = int (length peers) + 1, currentLeaderId = None,
      heartbeatTimeouts = [], leaderTimeout = True, electionTimeout = False,
      nodeIdToMessageNum = map (\<lambda>p. (p, 0)) peers, lastMessageNum = - 1,
      disabledDB = noDB, outbox = [SetTimeout LeaderTimer]\<rparr>"

text \<open>A record of the given term as a follower holds it: no callback.\<close>

definition entry :: "int \<Rightarrow> LogRecord" where
  "entry t = \<lparr>entryTerm = t, commandType = NEW_USER, logData = ''u'', callback = None\<rparr>"

text \<open>An AppendEntries request and a response, as \<^verbatim>\<open>rpcManager\<close> builds them.\<close>

definition appendRequest ::
  "string \<Rightarrow> int \<Rightarrow> int \<Rightarrow> int \<Rightarrow> int option \<Rightarrow> LogRecord list \<Rightarrow> int \<Rightarrow> AppendEntriesParameters" where
  "appendRequest s t num prevIdx prevTerm es commit =
     \<lparr>senderId = s, msgTerm = t, isResponse = False, messageNum = num,
      prevLogIndex = prevIdx, prevLogTerm = prevTerm, entries = es, leaderCommit = commit,
      success = False\<rparr>"

definition appendResponse :: "string \<Rightarrow> int \<Rightarrow> bool \<Rightarrow> AppendEntriesParameters" where
  "appendResponse s t ok =
     \<lparr>senderId = s, msgTerm = t, isResponse = True, messageNum = 0,
      prevLogIndex = - 1, prevLogTerm = None, entries = [], leaderCommit = - 1,
      success = ok\<rparr>"

definition voteRequest :: "string \<Rightarrow> int \<Rightarrow> int \<Rightarrow> int option \<Rightarrow> RequestVoteParameters" where
  "voteRequest s t lastIdx lastT =
     \<lparr>senderId = s, msgTerm = t, isResponse = False, messageNum = 0,
      lastLogIndex = lastIdx, lastLogTerm = lastT, voteGranted = False\<rparr>"

definition voteResponse :: "string \<Rightarrow> int \<Rightarrow> bool \<Rightarrow> RequestVoteParameters" where
  "voteResponse s t granted =
     \<lparr>senderId = s, msgTerm = t, isResponse = True, messageNum = 0,
      lastLogIndex = - 1, lastLogTerm = None, voteGranted = granted\<rparr>"

section \<open>Observations on the outbox\<close>

text \<open>The effects a handler has added, and whether a positive AppendEntries reply is among them.\<close>

definition added :: "RaftNode \<Rightarrow> RaftNode \<Rightarrow> effect list" where
  "added n n' = drop (length (outbox n)) (outbox n')"

fun isSuccessReply :: "effect \<Rightarrow> bool" where
  "isSuccessReply (SendReplicationResponse d t ok c l) = ok"
| "isSuccessReply _ = False"

definition repliesSuccess :: "RaftNode \<Rightarrow> RaftNode \<Rightarrow> bool" where
  "repliesSuccess n n' = list_ex isSuccessReply (added n n')"

text \<open>
  The message numbers of the requests of a run that the node accepts (replies success
  to), in the order of the run.
\<close>

fun acceptedNums :: "AppendEntriesParameters list \<Rightarrow> RaftNode \<Rightarrow> int list" where
  "acceptedNums [] n = []"
| "acceptedNums (a # as) n =
     (case onAppendEntriesMessage a n of
        Inl f \<Rightarrow> []
      | Inr n' \<Rightarrow> (if repliesSuccess n n' then [messageNum a] else []) @ acceptedNums as n')"

section \<open>Describing a run of the applier\<close>


definition clearCallback :: "LogRecord \<Rightarrow> LogRecord" where
  "clearCallback r = r\<lparr>callback := None\<rparr>"

definition clearRange :: "int \<Rightarrow> int \<Rightarrow> LogRecord list \<Rightarrow> LogRecord list" where
  "clearRange lo hi lg =
     map (\<lambda>(k, r). if lo \<le> int k \<and> int k \<le> hi then clearCallback r else r) (enumerate 0 lg)"



section \<open>Example nodes\<close>

text \<open>
  A follower of a cluster of three in term 2 that knows its leader B and has accepted
  B's message number 5.
\<close>

definition followerOfB :: RaftNode where
  "followerOfB = (startedNode [''B'', ''C''] 1000 True)
     \<lparr>currentTerm := 2, currentLeaderId := Some ''B'', lastMessageNum := 5\<rparr>"

text \<open>
  The same follower holding two records of term 1, and one of term 4 with five records of
  the terms 1, 1, 2, 2, 3 that has not voted.
\<close>

definition followerTwoRecords :: RaftNode where
  "followerTwoRecords = followerOfB\<lparr>log := [entry 1, entry 1]\<rparr>"

definition followerFiveRecords :: RaftNode where
  "followerFiveRecords = (startedNode [''B'', ''C''] 1000 True)
     \<lparr>currentTerm := 4, log := [entry 1, entry 1, entry 2, entry 2, entry 3]\<rparr>"

text \<open>
  The follower of B with three records of term 1, either all committed and applied, or none
  committed and the database enabled.
\<close>

definition followerAllApplied :: RaftNode where
  "followerAllApplied = followerOfB
     \<lparr>log := [entry 1, entry 1, entry 1], commitIndex := Some 2, lastApplied := 2\<rparr>"

definition followerNoneCommitted :: RaftNode where
  "followerNoneCommitted = followerOfB
     \<lparr>log := [entry 1, entry 1, entry 1], disabledDB := False\<rparr>"

text \<open>A follower in term 3 that has voted for B.\<close>

definition followerVotedB :: RaftNode where
  "followerVotedB = (startedNode [''B'', ''C''] 1000 True)\<lparr>currentTerm := 3, votedFor := Some ''B''\<rparr>"

text \<open>
  The leader of a cluster of three in term 3 with eleven records, all sent to both peers;
  both have confirmed index 9, which is committed and applied.
\<close>

definition leaderOfThree :: RaftNode where
  "leaderOfThree = (startedNode [''B'', ''C''] 1000 True)
     \<lparr>state := LEADER, currentTerm := 3, log := replicate 11 (entry 3),
      commitIndex := Some 9, lastApplied := 9,
      nextIndex := [(''B'', 10), (''C'', 10)],
      matchIndex := [(''B'', 9), (''C'', 9)],
      lastSent := [(''B'', 10), (''C'', 10)],
      nodeIdToMessageNum := [(''B'', 4), (''C'', 4)],
      leaderTimeout := False\<rparr>"

text \<open>
  The leader of a cluster of five as it is when it has just won the election of term 3:
  eight records, of which it had committed and applied those up to index 5 as a follower.
\<close>

definition leaderOfFive :: RaftNode where
  "leaderOfFive = (startedNode [''B'', ''C'', ''D'', ''E''] 1000 True)
     \<lparr>state := LEADER, currentTerm := 3, log := replicate 8 (entry 2),
      commitIndex := Some 5, lastApplied := 5,
      nextIndex := [(''B'', 8), (''C'', 8), (''D'', 8), (''E'', 8)],
      matchIndex := [(''B'', - 1), (''C'', - 1), (''D'', - 1), (''E'', - 1)],
      lastSent := [(''B'', 7), (''C'', 7), (''D'', 7), (''E'', 7)],
      leaderTimeout := False\<rparr>"


section \<open>Properties of the handlers\<close>

lemmas timer_defs = resetLeaderTimeout_def waitForLeaderTimeout_def stopLeaderTimeout_def
  resetElectionTimeout_def waitForElectionTimeout_def stopElectionTimeout_def
  stopHeartbeatTimeout_def setHeartbeat_def waitForHeartbeatTimeout_def
  resetHeartbeatTimeout_def emit_def

lemmas example_defs = startedNode_def entry_def appendRequest_def appendResponse_def
  voteRequest_def voteResponse_def

lemmas js_defs = js_index_def js_at_def js_slice_def lastTerm_def termAt_def map_get_def
  map_values_def

subsection \<open>What the helpers leave alone\<close>

lemma lastMessageNum_emit [simp]: "lastMessageNum (emit e n) = lastMessageNum n"
  by (simp add: emit_def)

lemma outbox_emit [simp]: "outbox (emit e n) = outbox n @ [e]"
  by (simp add: emit_def)

lemma lastMessageNum_resetLeaderTimeout [simp]:
  "lastMessageNum (resetLeaderTimeout n) = lastMessageNum n"
  by (simp add: resetLeaderTimeout_def waitForLeaderTimeout_def stopLeaderTimeout_def)

lemma outbox_resetLeaderTimeout [simp]:
  "outbox (resetLeaderTimeout n) = outbox n @ [ClearTimeout LeaderTimer, SetTimeout LeaderTimer]"
  by (simp add: resetLeaderTimeout_def waitForLeaderTimeout_def stopLeaderTimeout_def)

lemma lastMessageNum_applyLogEntry [simp]:
  "lastMessageNum (applyLogEntry i n) = lastMessageNum n"
  by (simp add: applyLogEntry_def applyCommand_def applyLogEntryResume_def Let_def
      split: option.splits CommandType.splits)

lemma lastMessageNum_applyLoop [simp]:
  "lastMessageNum (applyLoop i hi n) = lastMessageNum n"
  by (induction i hi n rule: applyLoop.induct) (simp add: applyLoop.simps)

lemma lastMessageNum_applyLogEntries [simp]:
  "lastMessageNum (applyLogEntries n) = lastMessageNum n"
  by (simp add: applyLogEntries_def split: option.splits)

lemma lastMessageNum_appendEntry [simp]:
  "lastMessageNum (appendEntry p i e n) = lastMessageNum n"
  by (simp add: appendEntry_def Let_def split: option.splits)

lemma lastMessageNum_appendEntriesLoop [simp]:
  "lastMessageNum (appendEntriesLoop p i es n) = lastMessageNum n"
  by (induction es arbitrary: i n) simp_all

lemma lastMessageNum_acceptAppendEntries:
  "lastMessageNum (acceptAppendEntries a n) = messageNum a"
  by (simp add: acceptAppendEntries_def replyAppend_def Let_def split: option.splits)

subsection \<open>Message numbers at a follower\<close>

lemma applyLogEntry_keeps:
  "state (applyLogEntry i n) = state n" "currentTerm (applyLogEntry i n) = currentTerm n"
  by (simp_all add: applyLogEntry_def applyCommand_def applyLogEntryResume_def Let_def emit_def
      split: option.splits CommandType.splits)

lemma applyLoop_keeps:
  "state (applyLoop i hi n) = state n \<and> currentTerm (applyLoop i hi n) = currentTerm n"
proof (induction i hi n rule: applyLoop.induct)
  case (1 i hi n)
  then show ?case by (subst (1 2) applyLoop.simps) (simp add: applyLogEntry_keeps)
qed

lemma applyLogEntries_keeps:
  "state (applyLogEntries n) = state n" "currentTerm (applyLogEntries n) = currentTerm n"
  by (simp_all add: applyLogEntries_def applyLoop_keeps split: option.splits)

lemma appendEntriesLoop_keeps:
  "state (appendEntriesLoop p i es n) = state n \<and>
   currentTerm (appendEntriesLoop p i es n) = currentTerm n"
  by (induction es arbitrary: i n) (simp_all add: appendEntry_def Let_def split: option.splits)

lemma acceptAppendEntries_keeps:
  "state (acceptAppendEntries a n) = state n"
  "currentTerm (acceptAppendEntries a n) = currentTerm n"
  by (simp_all add: acceptAppendEntries_def Let_def replyAppend_def timer_defs
      applyLogEntries_keeps appendEntriesLoop_keeps split: option.splits)

lemma followerAppendEntries_keeps:
  "state (followerAppendEntries a n) = state n"
  "currentTerm (followerAppendEntries a n) = currentTerm n"
  by (simp_all add: followerAppendEntries_def replyAppend_def timer_defs
      acceptAppendEntries_keeps split: option.splits)

lemma follower_step:
  assumes "state n = FOLLOWER" and "\<not> isResponse a" and "msgTerm a \<le> currentTerm n"
  shows "\<exists>n'. onAppendEntriesMessage a n = Inr n' \<and> state n' = FOLLOWER \<and>
           currentTerm n' = currentTerm n \<and>
           (messageNum a \<le> lastMessageNum n \<longrightarrow> n' = n) \<and>
           (repliesSuccess n n' \<longrightarrow>
              lastMessageNum n < messageNum a \<and> lastMessageNum n' = messageNum a) \<and>
           lastMessageNum n \<le> lastMessageNum n'"
proof -
  have r: "onAppendEntriesMessage a n = Inr (followerAppendEntries a n)"
    using assms by (simp add: onAppendEntriesMessage_def)
  have "(messageNum a \<le> lastMessageNum n \<longrightarrow> followerAppendEntries a n = n) \<and>
        (repliesSuccess n (followerAppendEntries a n) \<longrightarrow>
           lastMessageNum n < messageNum a \<and>
           lastMessageNum (followerAppendEntries a n) = messageNum a) \<and>
        lastMessageNum n \<le> lastMessageNum (followerAppendEntries a n)"
    using assms
    by (simp add: followerAppendEntries_def repliesSuccess_def
      added_def replyAppend_def lastMessageNum_acceptAppendEntries split: option.splits)
  with r assms(1) show ?thesis by (simp add: followerAppendEntries_keeps)
qed

lemma acceptedNums_increasing:
  assumes "state n = FOLLOWER"
    and "\<forall>a\<in>set as. \<not> isResponse a \<and> msgTerm a \<le> currentTerm n"
  shows "sorted_wrt (<) (acceptedNums as n) \<and> (\<forall>m\<in>set (acceptedNums as n). lastMessageNum n < m)"
  using assms
proof (induction as arbitrary: n)
  case Nil
  then show ?case by simp
next
  case (Cons a as)
  from Cons.prems have a: "\<not> isResponse a" "msgTerm a \<le> currentTerm n" by simp_all
  from follower_step[OF Cons.prems(1) a]
  obtain n' where n': "onAppendEntriesMessage a n = Inr n'" "state n' = FOLLOWER"
    "currentTerm n' = currentTerm n"
    "repliesSuccess n n' \<longrightarrow> lastMessageNum n < messageNum a \<and> lastMessageNum n' = messageNum a"
    "lastMessageNum n \<le> lastMessageNum n'"
    by blast
  have "\<forall>a\<in>set as. \<not> isResponse a \<and> msgTerm a \<le> currentTerm n'"
    using Cons.prems(2) n'(3) by simp
  from Cons.IH[OF n'(2) this]
  have ih: "sorted_wrt (<) (acceptedNums as n')" "\<forall>m\<in>set (acceptedNums as n'). lastMessageNum n' < m"
    by simp_all
  show ?case
  proof (cases "repliesSuccess n n'")
    case True
    with n' ih show ?thesis by (auto simp: n'(1))
  next
    case False
    with n' ih show ?thesis by (fastforce simp: n'(1))
  qed
qed

text \<open>
  C7. A follower that receives an AppendEntries request of its own term (or of an older
  one, so that the term does not change) ignores it, with no change of its state and no
  reply, when the message number is not above \<open>lastMessageNum\<close>; whenever it accepts a
  request (replies success) the message number is strictly above the old \<open>lastMessageNum\<close>
  and becomes the new one; and \<open>lastMessageNum\<close> never goes down. So over any run of
  such requests the message numbers of the accepted ones are strictly increasing.
\<close>

theorem follower_messageNum_order:
  assumes "state n = FOLLOWER" and "\<not> isResponse a" and "msgTerm a \<le> currentTerm n"
    and "\<forall>b\<in>set bs. \<not> isResponse b \<and> msgTerm b \<le> currentTerm n"
  shows "(\<exists>n'. onAppendEntriesMessage a n = Inr n' \<and>
           (messageNum a \<le> lastMessageNum n \<longrightarrow> n' = n) \<and>
           (repliesSuccess n n' \<longrightarrow>
              lastMessageNum n < messageNum a \<and> lastMessageNum n' = messageNum a) \<and>
           lastMessageNum n \<le> lastMessageNum n') \<and>
         sorted_wrt (<) (acceptedNums bs n)"
  using follower_step[OF assms(1-3)] acceptedNums_increasing[OF assms(1,4)] by blast

text \<open>
  The follower of B accepts B's message 6 and ignores a second copy of message 5; of the
  messages 7, 6, 9 in this order it accepts 7 and 9.
\<close>

theorem follower_messageNum_order_witness:
  "(\<exists>n'. onAppendEntriesMessage (appendRequest ''B'' 2 6 (- 1) None [] (- 1)) followerOfB = Inr n' \<and>
       repliesSuccess followerOfB n' \<and> lastMessageNum followerOfB < 6 \<and> lastMessageNum n' = 6) \<and>
   onAppendEntriesMessage (appendRequest ''B'' 2 5 (- 1) None [] (- 1)) followerOfB = Inr followerOfB \<and>
   acceptedNums [appendRequest ''B'' 2 7 (- 1) None [] (- 1),
                 appendRequest ''B'' 2 6 (- 1) None [] (- 1),
                 appendRequest ''B'' 2 9 (- 1) None [] (- 1)] followerOfB = [7, 9]"
proof -
  let ?a = "appendRequest ''B'' 2 6 (- 1) None [] (- 1)"
  let ?b = "appendRequest ''B'' 2 5 (- 1) None [] (- 1)"
  let ?bs = "[appendRequest ''B'' 2 7 (- 1) None [] (- 1),
                 appendRequest ''B'' 2 6 (- 1) None [] (- 1),
                 appendRequest ''B'' 2 9 (- 1) None [] (- 1)]"
  have pre: "state followerOfB = FOLLOWER" "\<not> isResponse ?a"
    "msgTerm ?a \<le> currentTerm followerOfB"
    "\<not> isResponse ?b" "msgTerm ?b \<le> currentTerm followerOfB"
    "messageNum ?b \<le> lastMessageNum followerOfB" "messageNum ?a = 6"
    and bs: "\<forall>b\<in>set ?bs. \<not> isResponse b \<and> msgTerm b \<le> currentTerm followerOfB"
    by (simp_all add: followerOfB_def example_defs)
  have acc: "\<And>n'. onAppendEntriesMessage ?a followerOfB = Inr n' \<Longrightarrow> repliesSuccess followerOfB n'"
    by (auto simp add: followerOfB_def example_defs onAppendEntriesMessage_def
        followerAppendEntries_def acceptAppendEntries_def replyAppend_def applyLogEntries_def
        timer_defs js_defs repliesSuccess_def added_def)
  have run: "acceptedNums ?bs followerOfB = [7, 9]"
    by (simp add: followerOfB_def example_defs onAppendEntriesMessage_def
        followerAppendEntries_def acceptAppendEntries_def replyAppend_def applyLogEntries_def
        timer_defs js_defs repliesSuccess_def added_def)
  from follower_messageNum_order[OF pre(1,2,3) bs] follower_messageNum_order[OF pre(1,4,5) bs]
    pre(6,7) acc run
  show ?thesis by auto
qed

subsection \<open>The check of the previous record\<close>

text \<open>
  C6, as the code has it. A follower that receives an AppendEntries request of its
  current term with a message number above \<open>lastMessageNum\<close> and a \<open>prevLogIndex\<close> at
  which its log has no record replies success=false and sets the leader timer anew;
  nothing else of its state changes, so the log, \<open>commitIndex\<close> and \<open>lastApplied\<close>
  stay as they are.
\<close>

theorem follower_rejects_missing_prevLog:
  assumes "state n = FOLLOWER" and "\<not> isResponse a" and "msgTerm a = currentTerm n"
    and "lastMessageNum n < messageNum a"
    and "0 \<le> prevLogIndex a" and "int (length (log n)) \<le> prevLogIndex a"
  shows "onAppendEntriesMessage a n =
           Inr (n\<lparr>leaderTimeout := True,
                   outbox := outbox n @
                     [SendReplicationResponse (senderId a) (currentTerm n) False
                        (commitIndex n) (lastApplied n),
                      ClearTimeout LeaderTimer, SetTimeout LeaderTimer]\<rparr>)"
  using assms
  by (simp add: onAppendEntriesMessage_def followerAppendEntries_def replyAppend_def
      js_at_def js_index_def timer_defs)

text \<open>The follower with two records is asked to append after index 2.\<close>

theorem follower_rejects_missing_prevLog_witness:
  "onAppendEntriesMessage (appendRequest ''B'' 2 6 2 (Some 1) [entry 2] (- 1)) followerTwoRecords =
     Inr (followerTwoRecords\<lparr>leaderTimeout := True,
            outbox := outbox followerTwoRecords @
              [SendReplicationResponse ''B'' 2 False (Some (- 1)) (- 1),
               ClearTimeout LeaderTimer, SetTimeout LeaderTimer]\<rparr>)"
  using follower_rejects_missing_prevLog
          [of followerTwoRecords "appendRequest ''B'' 2 6 2 (Some 1) [entry 2] (- 1)"]
  by (simp add: followerTwoRecords_def followerOfB_def example_defs)

text \<open>
  C6 as stated does not hold. The follower with two records of term 1 receives a request
  whose \<open>prevLogTerm\<close> 2 differs from the term of its record at \<open>prevLogIndex\<close> 1: it
  replies success and appends the entry. And a request whose message number 5 is not
  above \<open>lastMessageNum\<close> gets no reply at all, though the log has no record at its
  \<open>prevLogIndex\<close> 7.
\<close>

theorem prevLog_claim_counterexample:
  "termAt (log followerTwoRecords) 1 = Some 1 \<and>
   (\<exists>n'. onAppendEntriesMessage (appendRequest ''B'' 2 6 1 (Some 2) [entry 2] (- 1))
            followerTwoRecords = Inr n' \<and>
         repliesSuccess followerTwoRecords n' \<and>
         log n' = [entry 1, entry 1, entry 2]) \<and>
   onAppendEntriesMessage (appendRequest ''B'' 2 5 7 (Some 1) [] (- 1)) followerTwoRecords =
     Inr followerTwoRecords"
  by (simp add: followerTwoRecords_def followerOfB_def example_defs onAppendEntriesMessage_def
        followerAppendEntries_def acceptAppendEntries_def replyAppend_def applyLogEntries_def
        appendEntry_def
        timer_defs js_defs repliesSuccess_def added_def)

subsection \<open>The vote of a follower\<close>

lemma onRequestVoteMessage_follower:
  assumes "state n = FOLLOWER" and "\<not> isResponse a" and "msgTerm a \<le> currentTerm n"
  shows "onRequestVoteMessage a n =
           Inr (if voteCondition a n
                then n\<lparr>votedFor := Some (senderId a), leaderTimeout := True,
                       outbox := outbox n @ [SendVote (senderId a) (currentTerm n) True,
                         ClearTimeout LeaderTimer, SetTimeout LeaderTimer]\<rparr>
                else n\<lparr>outbox := outbox n @ [SendVote (senderId a) (currentTerm n) False]\<rparr>)"
  using assms
  by (simp add: onRequestVoteMessage_def followerRequestVote_def timer_defs)

lemma voteCondition_stale_candidate:
  assumes "length (log n) = 5" and "lastLogIndex a = 3" and "lastLogTerm a = Some 2"
    and "entryTerm (log n ! 3) \<noteq> 2"
  shows "\<not> voteCondition a n"
  using assms by (simp add: voteCondition_def termAt_def js_index_def)

text \<open>
  C5, as the code has it. A follower that receives a RequestVote request of its current
  term grants the vote, recording the sender in \<open>votedFor\<close> and setting the leader timer
  anew, if and only if \<open>votedFor\<close> is none and either its log has fewer than
  \<open>lastLogIndex + 1\<close> records or the term of its record at \<open>lastLogIndex\<close> (none where
  there is no record) equals \<open>lastLogTerm\<close>; otherwise it replies voteGranted=false and
  nothing else changes. In particular, a follower with five records that has not voted
  refuses a request with \<open>lastLogIndex = 3\<close> and \<open>lastLogTerm = 2\<close> when its record at
  index 3 has a term other than 2.
\<close>

theorem follower_vote_rule:
  assumes "state n = FOLLOWER" and "\<not> isResponse a" and "msgTerm a = currentTerm n"
  shows "\<exists>n'. onRequestVoteMessage a n = Inr n' \<and>
           (if votedFor n = None \<and>
               (int (length (log n)) < lastLogIndex a + 1 \<or>
                termAt (log n) (lastLogIndex a) = lastLogTerm a)
            then n' = n\<lparr>votedFor := Some (senderId a), leaderTimeout := True,
                        outbox := outbox n @ [SendVote (senderId a) (currentTerm n) True,
                          ClearTimeout LeaderTimer, SetTimeout LeaderTimer]\<rparr>
            else n' = n\<lparr>outbox := outbox n @ [SendVote (senderId a) (currentTerm n) False]\<rparr>) \<and>
           (length (log n) = 5 \<and> votedFor n = None \<and> lastLogIndex a = 3 \<and>
            lastLogTerm a = Some 2 \<and> entryTerm (log n ! 3) \<noteq> 2 \<longrightarrow>
              added n n' = [SendVote (senderId a) (currentTerm n) False])"
proof -
  define n' where "n' =
    (if voteCondition a n
     then n\<lparr>votedFor := Some (senderId a), leaderTimeout := True,
            outbox := outbox n @ [SendVote (senderId a) (currentTerm n) True,
              ClearTimeout LeaderTimer, SetTimeout LeaderTimer]\<rparr>
     else n\<lparr>outbox := outbox n @ [SendVote (senderId a) (currentTerm n) False]\<rparr>)"
  have r: "onRequestVoteMessage a n = Inr n'"
    unfolding n'_def using assms by (intro onRequestVoteMessage_follower) simp_all
  have c1: "if votedFor n = None \<and>
               (int (length (log n)) < lastLogIndex a + 1 \<or>
                termAt (log n) (lastLogIndex a) = lastLogTerm a)
            then n' = n\<lparr>votedFor := Some (senderId a), leaderTimeout := True,
                        outbox := outbox n @ [SendVote (senderId a) (currentTerm n) True,
                          ClearTimeout LeaderTimer, SetTimeout LeaderTimer]\<rparr>
            else n' = n\<lparr>outbox := outbox n @ [SendVote (senderId a) (currentTerm n) False]\<rparr>"
    by (simp add: n'_def voteCondition_def)
  have c2: "length (log n) = 5 \<and> votedFor n = None \<and> lastLogIndex a = 3 \<and>
            lastLogTerm a = Some 2 \<and> entryTerm (log n ! 3) \<noteq> 2 \<longrightarrow>
              added n n' = [SendVote (senderId a) (currentTerm n) False]"
  proof
    assume h: "length (log n) = 5 \<and> votedFor n = None \<and> lastLogIndex a = 3 \<and>
            lastLogTerm a = Some 2 \<and> entryTerm (log n ! 3) \<noteq> 2"
    then have "\<not> voteCondition a n"
      by (intro voteCondition_stale_candidate) simp_all
    then show "added n n' = [SendVote (senderId a) (currentTerm n) False]"
      by (simp add: n'_def added_def)
  qed
  from r c1 c2 show ?thesis by blast
qed

text \<open>
  The follower with two records of term 1 grants its vote to a candidate whose last
  record is at index 1 with term 1; a follower with records of the terms 1, 1, 3, 3, 3
  refuses the candidate whose last record is at index 3 with term 2.
\<close>

theorem follower_vote_rule_witness:
  "onRequestVoteMessage (voteRequest ''B'' 2 1 (Some 1)) followerTwoRecords =
     Inr (followerTwoRecords\<lparr>votedFor := Some ''B'', leaderTimeout := True,
            outbox := outbox followerTwoRecords @
              [SendVote ''B'' 2 True, ClearTimeout LeaderTimer, SetTimeout LeaderTimer]\<rparr>) \<and>
   (\<exists>n'. onRequestVoteMessage (voteRequest ''B'' 4 3 (Some 2))
            (followerFiveRecords\<lparr>log := [entry 1, entry 1, entry 3, entry 3, entry 3]\<rparr>) = Inr n' \<and>
      added (followerFiveRecords\<lparr>log := [entry 1, entry 1, entry 3, entry 3, entry 3]\<rparr>) n' =
        [SendVote ''B'' 4 False])"
proof -
  let ?n = "followerFiveRecords\<lparr>log := [entry 1, entry 1, entry 3, entry 3, entry 3]\<rparr>"
  let ?a = "voteRequest ''B'' 4 3 (Some 2)"
  let ?b = "voteRequest ''B'' 2 1 (Some 1)"
  have pa: "state ?n = FOLLOWER" "\<not> isResponse ?a" "msgTerm ?a = currentTerm ?n"
    and qa: "length (log ?n) = 5 \<and> votedFor ?n = None \<and> lastLogIndex ?a = 3 \<and>
            lastLogTerm ?a = Some 2 \<and> entryTerm (log ?n ! 3) \<noteq> 2"
    by (simp_all add: followerFiveRecords_def example_defs)
  have pb: "state followerTwoRecords = FOLLOWER" "\<not> isResponse ?b"
      "msgTerm ?b = currentTerm followerTwoRecords"
    and qb: "votedFor followerTwoRecords = None"
      "termAt (log followerTwoRecords) (lastLogIndex ?b) = lastLogTerm ?b"
      "senderId ?b = ''B''" "currentTerm followerTwoRecords = 2"
    by (simp_all add: followerTwoRecords_def followerOfB_def example_defs js_defs)
  from follower_vote_rule[OF pa] qa have 1: "\<exists>n'. onRequestVoteMessage ?a ?n = Inr n' \<and>
      added ?n n' = [SendVote (senderId ?a) (currentTerm ?n) False]"
    by blast
  have 2: "senderId ?a = ''B''" "currentTerm ?n = 4"
    by (simp_all add: followerFiveRecords_def example_defs)
  from follower_vote_rule[OF pb] qb have 3: "onRequestVoteMessage ?b followerTwoRecords =
     Inr (followerTwoRecords\<lparr>votedFor := Some ''B'', leaderTimeout := True,
            outbox := outbox followerTwoRecords @
              [SendVote ''B'' 2 True, ClearTimeout LeaderTimer, SetTimeout LeaderTimer]\<rparr>)"
    by auto
  from 1 2 3 show ?thesis by simp
qed

text \<open>
  C5 as stated does not hold: the follower with records of the terms 1, 1, 2, 2, 3 has five
  records, the last of term 3, and has not voted in term 4, and it grants its vote to the
  candidate with \<open>lastLogIndex = 3\<close> and \<open>lastLogTerm = 2\<close>, since its own record at
  index 3 has term 2.
\<close>

theorem vote_claim_counterexample:
  "state followerFiveRecords = FOLLOWER \<and> currentTerm followerFiveRecords = 4 \<and>
   votedFor followerFiveRecords = None \<and> length (log followerFiveRecords) = 5 \<and>
   lastTerm (log followerFiveRecords) = Some 3 \<and>
   onRequestVoteMessage (voteRequest ''B'' 4 3 (Some 2)) followerFiveRecords =
     Inr (followerFiveRecords\<lparr>votedFor := Some ''B'', leaderTimeout := True,
            outbox := outbox followerFiveRecords @
              [SendVote ''B'' 4 True, ClearTimeout LeaderTimer, SetTimeout LeaderTimer]\<rparr>)"
  by (simp add: followerFiveRecords_def example_defs onRequestVoteMessage_def
      followerRequestVote_def voteCondition_def timer_defs js_defs)

subsection \<open>Votes counted by a candidate\<close>

lemma stopHeartbeatTimeout_keeps:
  "state (stopHeartbeatTimeout x n) = state n"
  "votesGathered (stopHeartbeatTimeout x n) = votesGathered n"
  "clusterSize (stopHeartbeatTimeout x n) = clusterSize n"
  "currentTerm (stopHeartbeatTimeout x n) = currentTerm n"
  by (simp_all add: stopHeartbeatTimeout_def emit_def split: option.splits)

lemma fold_setHeartbeat_keeps:
  "state (fold setHeartbeat ps n) = state n"
  "votesGathered (fold setHeartbeat ps n) = votesGathered n"
  "clusterSize (fold setHeartbeat ps n) = clusterSize n"
  "currentTerm (fold setHeartbeat ps n) = currentTerm n"
  by (induction ps arbitrary: n; simp add: setHeartbeat_def emit_def)+

lemma fold_initPeer_keeps:
  "state (fold initPeer ps n) = state n"
  "votesGathered (fold initPeer ps n) = votesGathered n"
  "clusterSize (fold initPeer ps n) = clusterSize n"
  "currentTerm (fold initPeer ps n) = currentTerm n"
  by (induction ps arbitrary: n; simp add: initPeer_def)+

lemma becomeLeader_result:
  "\<exists>n'. becomeLeader n = Inr n' \<and> state n' = LEADER \<and> votesGathered n' = votesGathered n \<and>
        clusterSize n' = clusterSize n \<and> currentTerm n' = currentTerm n"
  by (simp add: becomeLeader_def Let_def resetHeartbeatTimeout_def waitForHeartbeatTimeout_def
      stopHeartbeatTimeout_keeps fold_setHeartbeat_keeps fold_initPeer_keeps
      stopElectionTimeout_def emit_def)

lemma candidate_granted_step:
  assumes "state n = CANDIDATE" and "isResponse a" and "voteGranted a"
    and "msgTerm a \<le> currentTerm n"
  shows "\<exists>n'. onRequestVoteMessage a n = Inr n' \<and>
           votesGathered n' = votesGathered n + 1 \<and>
           state n' = (if votesGathered n + 1 > clusterSize n div 2 then LEADER else CANDIDATE) \<and>
           clusterSize n' = clusterSize n \<and> currentTerm n' = currentTerm n"
proof (cases "votesGathered n + 1 > clusterSize n div 2")
  case True
  let ?n2 = "(stopHeartbeatTimeout (Some (senderId a)) n)
              \<lparr>votesGathered := votesGathered (stopHeartbeatTimeout (Some (senderId a)) n) + 1\<rparr>"
  have "onRequestVoteMessage a n = becomeLeader ?n2"
    using assms True
    by (simp add: onRequestVoteMessage_def candidateRequestVote_def Let_def
        stopHeartbeatTimeout_keeps)
  with becomeLeader_result[of ?n2] True show ?thesis
    by (auto simp: stopHeartbeatTimeout_keeps)
next
  case False
  with assms show ?thesis
    by (simp add: onRequestVoteMessage_def candidateRequestVote_def Let_def
        stopHeartbeatTimeout_keeps)
qed

lemma onRequestVoteMessages_append:
  "onRequestVoteMessages (xs @ ys) n =
     (case onRequestVoteMessages xs n of Inl f \<Rightarrow> Inl f | Inr n' \<Rightarrow> onRequestVoteMessages ys n')"
  by (induction xs arbitrary: n) (simp_all split: sum.splits)

lemma candidate_duplicates_below_majority:
  assumes "state n = CANDIDATE" and "isResponse a" and "voteGranted a"
    and "msgTerm a \<le> currentTerm n"
    and "votesGathered n + int k \<le> clusterSize n div 2"
  shows "\<exists>n'. onRequestVoteMessages (replicate k a) n = Inr n' \<and> state n' = CANDIDATE \<and>
           votesGathered n' = votesGathered n + int k \<and>
           clusterSize n' = clusterSize n \<and> currentTerm n' = currentTerm n"
  using assms
proof (induction k arbitrary: n)
  case 0
  then show ?case by simp
next
  case (Suc k)
  from candidate_granted_step[OF Suc.prems(1-4)] Suc.prems(5)
  obtain n1 where n1: "onRequestVoteMessage a n = Inr n1" "votesGathered n1 = votesGathered n + 1"
    "state n1 = CANDIDATE" "clusterSize n1 = clusterSize n" "currentTerm n1 = currentTerm n"
    by (auto split: if_splits)
  have "votesGathered n1 + int k \<le> clusterSize n1 div 2" using n1 Suc.prems(5) by simp
  from Suc.IH[OF n1(3) Suc.prems(2,3) _ this] n1 Suc.prems(4)
  show ?case by auto
qed

text \<open>
  C9. A candidate that receives a RequestVote response with voteGranted=true (of a term
  not above its own, so that it stays a candidate) adds one to \<open>votesGathered\<close>, whoever
  the sender is and whether or not that sender has been counted before, and becomes leader
  as soon as the count exceeds \<open>clusterSize div 2\<close>. So in a cluster of four or more, a
  candidate holding only its own vote that receives \<open>clusterSize div 2\<close> copies of one
  granted response of one peer becomes leader, although the nodes that granted a vote are
  two: fewer than a majority.
\<close>

theorem candidate_counts_duplicate_votes:
  assumes "state n = CANDIDATE" and "isResponse a" and "voteGranted a"
    and "msgTerm a \<le> currentTerm n"
  shows "(\<exists>n'. onRequestVoteMessage a n = Inr n' \<and>
            votesGathered n' = votesGathered n + 1 \<and>
            state n' = (if votesGathered n + 1 > clusterSize n div 2 then LEADER else CANDIDATE)) \<and>
         (votesGathered n = 1 \<and> 4 \<le> clusterSize n \<longrightarrow>
            (\<exists>n'. onRequestVoteMessages (replicate (nat (clusterSize n div 2)) a) n = Inr n' \<and>
               state n' = LEADER \<and> votesGathered n' > clusterSize n div 2 \<and>
               int (card (senderId ` set (replicate (nat (clusterSize n div 2)) a))) + 1
                 \<le> clusterSize n div 2))"
proof (intro conjI impI)
  show "\<exists>n'. onRequestVoteMessage a n = Inr n' \<and>
            votesGathered n' = votesGathered n + 1 \<and>
            state n' = (if votesGathered n + 1 > clusterSize n div 2 then LEADER else CANDIDATE)"
    using candidate_granted_step[OF assms] by blast
next
  assume h: "votesGathered n = 1 \<and> 4 \<le> clusterSize n"
  define k where "k = nat (clusterSize n div 2) - 1"
  have k: "nat (clusterSize n div 2) = Suc k" "int k + 1 = clusterSize n div 2"
  proof -
    from h have "2 \<le> clusterSize n div 2" by linarith
    then show "nat (clusterSize n div 2) = Suc k" "int k + 1 = clusterSize n div 2"
      unfolding k_def by linarith+
  qed
  have "votesGathered n + int k \<le> clusterSize n div 2" using h k by simp
  from candidate_duplicates_below_majority[OF assms this]
  obtain n1 where n1: "onRequestVoteMessages (replicate k a) n = Inr n1" "state n1 = CANDIDATE"
    "votesGathered n1 = votesGathered n + int k" "clusterSize n1 = clusterSize n"
    "currentTerm n1 = currentTerm n"
    by blast
  from candidate_granted_step[OF n1(2) assms(2,3)] n1 assms(4) h k
  obtain n2 where n2: "onRequestVoteMessage a n1 = Inr n2" "votesGathered n2 = votesGathered n1 + 1"
    "state n2 = LEADER"
    by (auto split: if_splits)
  have run: "onRequestVoteMessages (replicate (nat (clusterSize n div 2)) a) n = Inr n2"
  proof -
    have "replicate (Suc k) a = replicate k a @ [a]"
      by (simp add: replicate_append_same)
    then show ?thesis
      using n1(1) n2(1) by (simp only: k(1) onRequestVoteMessages_append) simp
  qed
  have one: "senderId ` set (replicate (nat (clusterSize n div 2)) a) = {senderId a}"
    unfolding k(1) by auto
  show "\<exists>n'. onRequestVoteMessages (replicate (nat (clusterSize n div 2)) a) n = Inr n' \<and>
               state n' = LEADER \<and> votesGathered n' > clusterSize n div 2 \<and>
               int (card (senderId ` set (replicate (nat (clusterSize n div 2)) a))) + 1
                 \<le> clusterSize n div 2"
  proof -
    from h have two: "2 \<le> clusterSize n div 2" by linarith
    have "votesGathered n2 > clusterSize n div 2" using n2(2) n1(3) h k(2) by linarith
    with run n2(3) two show ?thesis unfolding one by (intro exI[of _ n2]) simp
  qed
qed

text \<open>What \<open>startNewElection\<close> returns, for every node.\<close>

lemma resetElectionTimeout_keeps:
  "state (resetElectionTimeout n) = state n"
  "votesGathered (resetElectionTimeout n) = votesGathered n"
  "clusterSize (resetElectionTimeout n) = clusterSize n"
  "currentTerm (resetElectionTimeout n) = currentTerm n"
  by (simp_all add: timer_defs)

lemma stopLeaderTimeout_keeps:
  "state (stopLeaderTimeout n) = state n"
  "votesGathered (stopLeaderTimeout n) = votesGathered n"
  "clusterSize (stopLeaderTimeout n) = clusterSize n"
  "currentTerm (stopLeaderTimeout n) = currentTerm n"
  by (simp_all add: timer_defs)

lemma outbox_fold_setHeartbeat:
  "outbox (fold setHeartbeat ps n) = outbox n @ map (\<lambda>p. SetTimeout (HeartbeatTimer p)) ps"
  by (induction ps arbitrary: n) (simp_all add: setHeartbeat_def emit_def)

lemma minElectionDelay_fold_setHeartbeat:
  "minElectionDelay (fold setHeartbeat ps n) = minElectionDelay n"
  by (induction ps arbitrary: n) (simp_all add: setHeartbeat_def emit_def)

lemma startNewElection_result:
  "\<exists>n'. startNewElection n = Inr n' \<and> state n' = CANDIDATE \<and>
        currentTerm n' = currentTerm n + 1 \<and> votesGathered n' = 1 \<and>
        clusterSize n' = clusterSize n \<and> minElectionDelay n' = minElectionDelay n \<and>
        added n n' =
          [SendElectionNotice (currentTerm n + 1) (int (length (log n)) - 1) (lastTerm (log n)),
           ClearTimeout LeaderTimer, ClearTimeout ElectionTimer, SetTimeout ElectionTimer] @
          map (\<lambda>p. ClearTimeout (HeartbeatTimer p)) (sockets n) @
          map (\<lambda>p. SetTimeout (HeartbeatTimer p)) (sockets n)"
  by (simp add: startNewElection_def Let_def resetHeartbeatTimeout_def
      waitForHeartbeatTimeout_def stopHeartbeatTimeout_def fold_setHeartbeat_keeps
      outbox_fold_setHeartbeat minElectionDelay_fold_setHeartbeat added_def
      resetElectionTimeout_def waitForElectionTimeout_def stopElectionTimeout_def
      stopLeaderTimeout_def emit_def)

text \<open>
  A node of a cluster of five starts an election and receives the granted response of B
  twice: it is leader with three votes counted, from one peer and itself.
\<close>

theorem candidate_counts_duplicate_votes_witness:
  "\<exists>n. startNewElection (startedNode [''B'', ''C'', ''D'', ''E''] 1000 True) = Inr n \<and>
       state n = CANDIDATE \<and> votesGathered n = 1 \<and> clusterSize n = 5 \<and>
       (\<exists>n'. onRequestVoteMessages [voteResponse ''B'' 1 True, voteResponse ''B'' 1 True] n = Inr n' \<and>
          state n' = LEADER \<and> votesGathered n' = 3) \<and>
       card (senderId ` set [voteResponse ''B'' 1 True, voteResponse ''B'' 1 True]) = 1"
proof -
  let ?n0 = "startedNode [''B'', ''C'', ''D'', ''E''] 1000 True"
  let ?a = "voteResponse ''B'' 1 True"
  from startNewElection_result[of ?n0]
  obtain n where n: "startNewElection ?n0 = Inr n" "state n = CANDIDATE"
    "currentTerm n = currentTerm ?n0 + 1" "votesGathered n = 1" "clusterSize n = clusterSize ?n0"
    by blast
  have c: "clusterSize n = 5" "currentTerm n = 1"
    using n by (simp_all add: startedNode_def)
  have a: "isResponse ?a" "voteGranted ?a" "msgTerm ?a \<le> currentTerm n"
    using c by (simp_all add: voteResponse_def)
  have r: "replicate (nat (clusterSize n div 2)) ?a = [?a, ?a]"
    by (simp add: c numeral_2_eq_2)
  from candidate_counts_duplicate_votes[OF n(2) a] n(4) c(1)
  obtain n' where n': "onRequestVoteMessages (replicate (nat (clusterSize n div 2)) ?a) n = Inr n'"
    "state n' = LEADER" "votesGathered n' > clusterSize n div 2"
    by auto
  from candidate_granted_step[OF n(2) a]
  obtain n1 where n1: "onRequestVoteMessage ?a n = Inr n1" "votesGathered n1 = 2"
    "state n1 = CANDIDATE" "clusterSize n1 = 5" "currentTerm n1 = 1"
    using n(4) c by auto
  have a1: "msgTerm ?a \<le> currentTerm n1" using n1 by (simp add: voteResponse_def)
  from candidate_granted_step[OF n1(3) a(1,2) a1]
  obtain n2 where n2: "onRequestVoteMessage ?a n1 = Inr n2" "votesGathered n2 = 3"
    using n1 by auto
  have "n' = n2" using n' n1 n2 unfolding r by simp
  with n' n2 have "onRequestVoteMessages [?a, ?a] n = Inr n' \<and> state n' = LEADER \<and> votesGathered n' = 3"
    unfolding r by simp
  moreover have "card (senderId ` set [?a, ?a]) = 1" by simp
  ultimately show ?thesis using n c by blast
qed

subsection \<open>Starting an election\<close>

text \<open>
  C10 fails on the code. \<open>startNewElection\<close> has no input that says when it runs and
  reads neither a clock nor \<open>minElectionDelay\<close>: every call raises the term and sends
  the election notice. A node built with a minimum election delay of 1000 ms whose
  election is started twice in a row, with nothing in between, is in term 2 and has
  sent the notice of term 2.
\<close>

theorem election_is_never_suppressed:
  "\<exists>n1 n2. startNewElection (startedNode [''B'', ''C''] 1000 True) = Inr n1 \<and>
          startNewElection n1 = Inr n2 \<and>
          minElectionDelay n1 = 1000 \<and>
          currentTerm n1 = 1 \<and> currentTerm n2 = 2 \<and>
          added n1 n2 =
            [SendElectionNotice 2 (- 1) None,
             ClearTimeout LeaderTimer, ClearTimeout ElectionTimer, SetTimeout ElectionTimer,
             ClearTimeout (HeartbeatTimer ''B''), ClearTimeout (HeartbeatTimer ''C''),
             SetTimeout (HeartbeatTimer ''B''), SetTimeout (HeartbeatTimer ''C'')]"
  by (simp add: startedNode_def startNewElection_def Let_def timer_defs js_defs added_def)

subsection \<open>The commit index of a leader\<close>

text \<open>
  What the leader computes on a positive response of a peer it knows, when the record at
  the index last sent to that peer exists: the match index of the peer becomes that index,
  and the commit index becomes the element at position \<open>clusterSize div 2\<close> of the match
  indexes in the order of the default sort (undefined when there is no such position).
\<close>

lemma applyLogEntry_leader_fields:
  "commitIndex (applyLogEntry i n) = commitIndex n"
  "matchIndex (applyLogEntry i n) = matchIndex n"
  by (simp_all add: applyLogEntry_def applyCommand_def applyLogEntryResume_def Let_def emit_def
      split: option.splits CommandType.splits)

lemma applyLoop_leader_fields:
  "commitIndex (applyLoop i hi n) = commitIndex n \<and> matchIndex (applyLoop i hi n) = matchIndex n"
proof (induction i hi n rule: applyLoop.induct)
  case (1 i hi n)
  then show ?case by (subst (1 2) applyLoop.simps) (simp add: applyLogEntry_leader_fields)
qed

lemma applyLogEntries_leader_fields:
  "commitIndex (applyLogEntries n) = commitIndex n"
  "matchIndex (applyLogEntries n) = matchIndex n"
  by (simp_all add: applyLogEntries_def applyLoop_leader_fields split: option.splits)

lemma leader_commitIndex:
  assumes "state n = LEADER" and "isResponse a" and "success a"
    and "msgTerm a \<le> currentTerm n"
    and "map_get (lastSent n) (senderId a) = Some ls"
    and "map_get (nodeIdToMessageNum n) (senderId a) = Some mn"
    and "ls < int (length (log n))"
  shows "\<exists>n'. onAppendEntriesMessage a n = Inr n' \<and>
           matchIndex n' = map_set (matchIndex n) (senderId a) ls \<and>
           commitIndex n' = js_index (js_sort (map_values (matchIndex n'))) (clusterSize n div 2)"
  using assms
  by (simp add: onAppendEntriesMessage_def leaderAppendEntries_def Let_def js_index_def
      resetHeartbeatTimeout_def waitForHeartbeatTimeout_def stopHeartbeatTimeout_def
      setHeartbeat_def emit_def applyLogEntries_leader_fields)

lemma js_sort_10_9: "js_sort [10, 9] = [10, 9]"
  by code_simp

text \<open>
  C1 fails on the code. The leader of three, whose peers have both confirmed index 9,
  receives the positive response of B for index 10. The match indexes are then 10 and 9;
  the default sort orders them as the strings "10" and "9", so position
  \<open>clusterSize div 2 = 1\<close> holds 9 and the commit index stays 9, while position 1 of the
  numerically sorted list is 10.
\<close>

theorem leader_commit_sorts_as_strings:
  "\<exists>n'. onAppendEntriesMessage (appendResponse ''B'' 3 True) leaderOfThree = Inr n' \<and>
        matchIndex n' = [(''B'', 10), (''C'', 9)] \<and>
        commitIndex n' = Some 9 \<and>
        js_index (sort (map_values (matchIndex n'))) (clusterSize n' div 2) = Some 10"
  by (simp add: leaderOfThree_def example_defs onAppendEntriesMessage_def
      leaderAppendEntries_def js_defs js_sort_10_9 applyLogEntries_def Let_def)

subsection \<open>Commit index and last applied going down\<close>

text \<open>The applier itself never lowers \<open>lastApplied\<close>.\<close>

lemma lastApplied_applyLogEntries: "lastApplied n \<le> lastApplied (applyLogEntries n)"
  by (simp add: applyLogEntries_def split: option.splits)

lemma js_sort_five: "js_sort [7, - 1, - 1, - 1] = [- 1, - 1, - 1, 7]"
  by code_simp

text \<open>
  C2 fails on the code. A follower that has applied its three records receives from its
  leader an entry of another term for index 1: the log is cut to one record and
  \<open>lastApplied\<close> goes down from 2 to 0. And the leader of five, which had committed
  index 5 as a follower, receives its first positive response: the commit index goes down
  from 5 to -1 although its log is untouched.
\<close>

theorem commit_and_applied_go_down:
  "(\<exists>n'. onAppendEntriesMessage (appendRequest ''B'' 2 6 0 (Some 1) [entry 2] 0)
            followerAllApplied = Inr n' \<and>
         lastApplied followerAllApplied = 2 \<and> lastApplied n' = 0 \<and>
         log n' = [entry 1, entry 2] \<and> commitIndex n' = Some 0) \<and>
   (\<exists>n'. onAppendEntriesMessage (appendResponse ''B'' 3 True) leaderOfFive = Inr n' \<and>
         commitIndex leaderOfFive = Some 5 \<and> commitIndex n' = Some (- 1) \<and>
         log n' = log leaderOfFive \<and> lastApplied n' = 5)"
  by (simp add: followerAllApplied_def followerOfB_def leaderOfFive_def example_defs
      onAppendEntriesMessage_def followerAppendEntries_def acceptAppendEntries_def
      appendEntry_def replyAppend_def timer_defs
      leaderAppendEntries_def js_defs js_sort_five applyLogEntries_def Let_def)

subsection \<open>The term change on an AppendEntries message\<close>

text \<open>
  What the block does: the role, the term, the leader, the message number and the leader
  timer are set; \<open>votedFor\<close> is not touched, while the block of \<open>onRequestVoteMessage\<close>
  resets it.
\<close>

lemma appendEntriesTermBump_fields:
  "state (appendEntriesTermBump a n) = FOLLOWER"
  "currentTerm (appendEntriesTermBump a n) = msgTerm a"
  "currentLeaderId (appendEntriesTermBump a n) = (if isResponse a then None else Some (senderId a))"
  "lastMessageNum (appendEntriesTermBump a n) = - 1"
  "leaderTimeout (appendEntriesTermBump a n)"
  by (simp_all add: appendEntriesTermBump_def Let_def timer_defs split: State.splits)

lemma votedFor_appendEntriesTermBump:
  "votedFor (appendEntriesTermBump a n) = votedFor n"
  by (simp add: appendEntriesTermBump_def Let_def timer_defs split: State.splits)

lemma votedFor_requestVoteTermBump:
  "votedFor (requestVoteTermBump a n) = None"
  by (simp add: requestVoteTermBump_def Let_def timer_defs split: State.splits)

text \<open>
  C3 fails on the code. A follower in term 3 that has voted for B receives an
  AppendEntries request of term 5 from C: it is a follower in term 5 with leader C, but
  \<open>votedFor\<close> is still B. (The term change on a RequestVote message does reset it.)
\<close>

theorem appendEntries_bump_keeps_vote:
  "\<exists>n'. onAppendEntriesMessage (appendRequest ''C'' 5 0 (- 1) None [] (- 1)) followerVotedB = Inr n' \<and>
        state n' = FOLLOWER \<and> currentTerm n' = 5 \<and> currentLeaderId n' = Some ''C'' \<and>
        votedFor n' = Some ''B''"
  by (simp add: followerVotedB_def example_defs
      onAppendEntriesMessage_def appendEntriesTermBump_def followerAppendEntries_def acceptAppendEntries_def
      appendEntry_def replyAppend_def timer_defs js_defs applyLogEntries_def Let_def)

subsection \<open>Conflicting entries\<close>

text \<open>
  One step of the loop over the entries. On a conflict at the target index \<open>j = prev + i + 1\<close>
  the log is cut to length \<open>j\<close>, the commit index is set to \<open>j - 1\<close>, \<open>lastApplied\<close>
  is clamped to it, and the entry is appended; otherwise the entry is appended at the end
  of the log. The records below \<open>j\<close> stay as they are.
\<close>

lemma appendEntry_conflict:
  assumes "js_index (log n) (prev + int i + 1) = Some r" and "entryTerm r \<noteq> entryTerm e"
  shows "appendEntry prev i e n =
           n\<lparr>log := take (nat (prev + int i + 1)) (log n) @ [e],
             commitIndex := Some (prev + int i),
             lastApplied := min (prev + int i) (lastApplied n)\<rparr>"
proof -
  from assms(1) have j: "0 \<le> prev + int i + 1" "prev + int i + 1 < int (length (log n))"
    by (simp_all add: js_index_def split: if_splits)
  then have "int (length (take (nat (prev + int i + 1)) (log n))) - 1 = prev + int i"
    by simp
  with assms show ?thesis
    by (simp add: appendEntry_def Let_def)
qed

lemma appendEntry_no_conflict:
  assumes "js_index (log n) (prev + int i + 1) = None \<or>
           js_index (log n) (prev + int i + 1) = Some r \<and> entryTerm r = entryTerm e"
  shows "appendEntry prev i e n = n\<lparr>log := log n @ [e]\<rparr>"
  using assms by (auto simp add: appendEntry_def Let_def)

lemma appendEntry_prefix:
  assumes "int k < prev + int i + 1" and "k < length (log n)"
  shows "log (appendEntry prev i e n) ! k = log n ! k"
  using assms
  by (simp add: appendEntry_def Let_def nth_append split: option.splits)

text \<open>
  C4 fails on the code. A follower with three records of term 1, none of them committed,
  receives an entry of term 2 for index 2. The log is cut to length 2 and the commit index
  is set to 1: it is raised from -1, not clamped. The applier then hands the records 0
  and 1 to the database, though the leader's commit index in the request is -1.
\<close>

theorem truncation_raises_commitIndex:
  "\<exists>n'. onAppendEntriesMessage (appendRequest ''B'' 2 6 1 (Some 1) [entry 2] (- 1))
           followerNoneCommitted = Inr n' \<and>
        commitIndex followerNoneCommitted = Some (- 1) \<and>
        log n' = [entry 1, entry 1, entry 2] \<and>
        commitIndex n' = Some 1 \<and> lastApplied n' = 1 \<and>
        added followerNoneCommitted n' =
          [DbQuery 0 NEW_USER ''u'', DbQuery 1 NEW_USER ''u'',
           SendReplicationResponse ''B'' 2 True (Some 1) 1,
           ClearTimeout LeaderTimer, SetTimeout LeaderTimer]"
  by (simp add: followerNoneCommitted_def followerOfB_def example_defs
      onAppendEntriesMessage_def followerAppendEntries_def acceptAppendEntries_def
      appendEntry_def replyAppend_def timer_defs js_defs applyLogEntries_def applyLoop.simps
      applyLogEntry_def applyCommand_def added_def Let_def)

subsection \<open>The applier\<close>





lemma length_clearRange [simp]: "length (clearRange lo hi lg) = length lg"
  by (simp add: clearRange_def)













end
